theory Spec2Isabelle
  imports Complex_Main "HOL-Library.Sublist"
begin

section \<open>Derek Dashboard: the supervisory core of \<open>main.py\<close>\<close>

text \<open>
  The development embeds the module-level core initialisation, the class
  \<open>DerekDashboard\<close> (\<open>__init__\<close>, \<open>start\<close>, \<open>process_message\<close>, \<open>stop\<close>) and the
  loop of \<open>main\<close>.  Collaborators that live outside \<open>main.py\<close> (the reasoner
  \<open>Derek\<close>, \<open>MemoryMeshBridge\<close>, \<open>MemoryEngine\<close>, the voice, the recogniser) are
  records describing how each of their calls behaves: whether it raises and what it
  returns.  Every call that the Python makes on a collaborator is recorded as an
  \<open>event\<close>, so that "was attempted" is a statement about the trace.

  Conventions.
  \<^item> A Python \<open>str\<close> is a \<open>string\<close>; a \<open>char\<close> stands for one code point below 256.
  \<^item> An object reference that may be \<open>None\<close> is an \<open>option\<close>; the handles are
    ordinary objects, so \<open>if self.derek\<close> is the test \<open>\<noteq> None\<close>.
  \<^item> A Python call that may raise returns a \<open>py\<close> value: \<open>Raised\<close> or \<open>Returned v\<close>.
    \<open>except Exception\<close> is the case analysis on that value.
  \<^item> Calls of \<open>logger\<close> and \<open>print\<close> do not raise.
\<close>

subsection \<open>Outcomes and events\<close>

datatype 'a py = Raised | Returned 'a

record memory_entry =
  category :: string
  content :: string
  importance :: real
  timestamp :: string

datatype subsystem = MemoryEngineSub | MemorySub | VisionSub

datatype class_name =
    DerekCls | PerplexityServiceCls | MemoryEngineCls | ConversationEngineCls
  | DerekUltimateVoiceCls | MemoryMeshBridgeCls

text \<open>
  The text of a \<open>Printed\<close> or log event is the ASCII text of the message, without
  its pictograph and without the interpolated exception.  \<open>ProcessCalled\<close> marks
  the call of \<open>dashboard.process_message\<close> by the loop.
\<close>

datatype event =
    ThinkCalled string
  | StoreCalled memory_entry
  | ShutdownCalled subsystem
  | SpeakCalled string
  | ConstructCalled class_name
  | ListenCalled
  | RecognizeCalled
  | InputCalled
  | ProcessCalled string
  | Printed string
  | LogInfo string
  | LogWarning string
  | LogDebug string
  | LogError string

subsection \<open>Collaborators\<close>

text \<open>
  \<open>Derek.think(message)\<close> either raises or returns a dictionary from field names to
  texts (an association list, read with \<open>map_of\<close> as \<open>dict.get\<close> reads it).
\<close>

record reasoner =
  think :: "string \<Rightarrow> (string \<times> string) list py"

text \<open>
  \<open>MemoryMeshBridge\<close>: \<open>store\<close> raises on the entries \<open>store_raises\<close> selects and
  appends the entry otherwise; \<open>save\<close> raises when \<open>save_raises\<close>.
\<close>

record memory_bridge =
  entries :: "memory_entry list"
  store_raises :: "memory_entry \<Rightarrow> bool"
  save_raises :: bool

record memory_engine =
  engine_save_raises :: bool

record vision =
  stop_raises :: bool

text \<open>
  \<open>DerekUltimateVoice\<close>: \<open>has_speak\<close> is \<open>hasattr(voice, 'speak')\<close>; calling
  \<open>speak\<close> on a voice without that attribute raises \<open>AttributeError\<close>.
\<close>

record voice =
  has_speak :: bool
  speak_raises :: "string \<Rightarrow> bool"

definition speak :: "voice \<Rightarrow> string \<Rightarrow> unit py \<times> event list" where
  "speak v text =
     (if \<not> has_speak v then (Raised, [])
      else if speak_raises v text then (Raised, [SpeakCalled text])
      else (Returned (), [SpeakCalled text]))"

definition store :: "memory_bridge \<Rightarrow> memory_entry \<Rightarrow> unit py \<times> memory_bridge \<times> event list" where
  "store m e =
     (if store_raises m e then (Raised, m, [StoreCalled e])
      else (Returned (), m\<lparr>entries := entries m @ [e]\<rparr>, [StoreCalled e]))"

subsection \<open>The dashboard\<close>

record dashboard =
  memory_engine :: "memory_engine option"
  conversation_engine :: "unit option"
  perplexity_service :: "unit option"
  derek :: "reasoner option"
  derek_ultimate_voice :: "voice option"
  memory :: "memory_bridge option"
  vision :: "vision option"

subsection \<open>\<open>process_message\<close>\<close>

definition system_not_ready :: string where
  "system_not_ready = ''System not ready.''"

definition no_output :: string where
  "no_output = ''[No output]''"

definition error_processing :: string where
  "error_processing = ''Error processing message.''"

text \<open>\<open>response.get("response", "[No output]")\<close>\<close>

definition get_response :: "(string \<times> string) list \<Rightarrow> string" where
  "get_response response =
     (case map_of response ''response'' of None \<Rightarrow> no_output | Some t \<Rightarrow> t)"

text \<open>
  The dictionary handed to \<open>self.memory.store\<close>; \<open>now\<close> is the text that
  \<open>datetime.now().isoformat()\<close> returns at the call.
\<close>

definition conversation_entry :: "string \<Rightarrow> string \<Rightarrow> string \<Rightarrow> memory_entry" where
  "conversation_entry now message final_text =
     \<lparr>category = ''conversation'',
      content = take 50 message @ '' -> '' @ take 50 final_text,
      importance = 7 / 10,
      timestamp = now\<rparr>"

text \<open>
  \<open>process_message\<close> returns the outcome of the call, the dashboard after it and the
  events of the call.  The inner \<open>try\<close> catches a raising \<open>store\<close> and logs at debug
  level; the outer \<open>try\<close> catches a raising \<open>think\<close>.
\<close>

definition process_message ::
  "string \<Rightarrow> dashboard \<Rightarrow> string \<Rightarrow> string py \<times> dashboard \<times> event list" where
  "process_message now d message =
     (case derek d of
        None \<Rightarrow> (Returned system_not_ready, d, [])
      | Some r \<Rightarrow>
          (case think r message of
             Raised \<Rightarrow>
               (Returned error_processing, d,
                [ThinkCalled message, LogError ''Error during message processing''])
           | Returned response \<Rightarrow>
               (let final_text = get_response response in
                case memory d of
                  None \<Rightarrow> (Returned final_text, d, [ThinkCalled message])
                | Some m \<Rightarrow>
                    (case store m (conversation_entry now message final_text) of
                       (Raised, m', evs) \<Rightarrow>
                         (Returned final_text, d\<lparr>memory := Some m'\<rparr>,
                          ThinkCalled message # evs @ [LogDebug ''Memory store failed''])
                     | (Returned u, m', evs) \<Rightarrow>
                         (Returned final_text, d\<lparr>memory := Some m'\<rparr>,
                          ThinkCalled message # evs)))))"

subsection \<open>Initialisation\<close>

text \<open>
  A class fetched with \<open>getattr(module, name, None)\<close> is \<open>None\<close> or a class whose
  constructor raises or builds a handle.
\<close>

datatype 'h ctor = CtorRaises | CtorBuilds 'h

record modules =
  PerplexityService :: "unit ctor option"
  MemoryEngine :: "memory_engine ctor option"
  ConversationEngine :: "unit ctor option"
  Derek :: "reasoner ctor option"
  DerekUltimateVoice :: "voice ctor option"
  MemoryMeshBridge :: "memory_bridge ctor option"

definition call_ctor :: "class_name \<Rightarrow> 'h ctor \<Rightarrow> 'h py \<times> event list" where
  "call_ctor n c =
     (case c of
        CtorRaises \<Rightarrow> (Raised, [ConstructCalled n])
      | CtorBuilds h \<Rightarrow> (Returned h, [ConstructCalled n]))"

text \<open>\<open>X(...) if X else None\<close>\<close>

definition construct_if :: "class_name \<Rightarrow> 'h ctor option \<Rightarrow> 'h option py \<times> event list" where
  "construct_if n cls =
     (case cls of
        None \<Rightarrow> (Returned None, [])
      | Some c \<Rightarrow>
          (case call_ctor n c of
             (Raised, evs) \<Rightarrow> (Raised, evs)
           | (Returned h, evs) \<Rightarrow> (Returned (Some h), evs)))"

text \<open>\<open>X(...)\<close> where \<open>X\<close> may be \<open>None\<close>: calling \<open>None\<close> raises \<open>TypeError\<close>.\<close>

definition call_class :: "class_name \<Rightarrow> 'h ctor option \<Rightarrow> 'h py \<times> event list" where
  "call_class n cls =
     (case cls of None \<Rightarrow> (Raised, []) | Some c \<Rightarrow> call_ctor n c)"

text \<open>The body of the module-level \<open>try\<close> (lines 87 to 89).\<close>

definition core_try ::
  "modules \<Rightarrow> (voice option \<times> memory_bridge option) py \<times> event list" where
  "core_try ms =
     (case construct_if DerekUltimateVoiceCls (DerekUltimateVoice ms) of
        (Raised, evs) \<Rightarrow> (Raised, evs)
      | (Returned v, evs) \<Rightarrow>
          (case construct_if MemoryMeshBridgeCls (MemoryMeshBridge ms) of
             (Raised, evs') \<Rightarrow> (Raised, evs @ evs')
           | (Returned m, evs') \<Rightarrow>
               (Returned (v, m),
                evs @ evs' @ [LogInfo ''Derek Core Modules initialized successfully''])))"

text \<open>The module-level \<open>try ... except\<close>: on any failure both globals are \<open>None\<close>.\<close>

definition core_init ::
  "modules \<Rightarrow> (voice option \<times> memory_bridge option) py \<times> event list" where
  "core_init ms =
     (case core_try ms of
        (Raised, evs) \<Rightarrow> (Returned (None, None), evs @ [LogError ''Initialization failure''])
      | (Returned vm, evs) \<Rightarrow> (Returned vm, evs))"

text \<open>
  One guarded construction of \<open>__init__\<close>:
  \<open>if X: try: self.f = X(); info(ready) except: warning(unavailable)\<close>.
\<close>

definition guarded_construct ::
  "class_name \<Rightarrow> string \<Rightarrow> string \<Rightarrow> 'h ctor option \<Rightarrow> 'h option \<times> event list" where
  "guarded_construct n ready unavailable cls =
     (case cls of
        None \<Rightarrow> (None, [])
      | Some c \<Rightarrow>
          (case call_ctor n c of
             (Raised, evs) \<Rightarrow> (None, evs @ [LogWarning unavailable])
           | (Returned h, evs) \<Rightarrow> (Some h, evs @ [LogInfo ready])))"

text \<open>
  \<open>DerekDashboard.__init__\<close>, given the two module-level globals.  \<open>Derek\<close> is
  called without a test of the class (\<open>derek_try\<close>, lines 120 to 124); the other
  three are guarded by \<open>if X\<close>.
\<close>

definition derek_try :: "modules \<Rightarrow> reasoner option \<times> event list" where
  "derek_try ms =
     (case call_class DerekCls (Derek ms) of
        (Raised, evs) \<Rightarrow> (None, evs @ [LogError ''Derek initialization failed''])
      | (Returned h, evs) \<Rightarrow> (Some h, evs))"

definition dashboard_init ::
  "modules \<Rightarrow> voice option \<Rightarrow> memory_bridge option \<Rightarrow> dashboard py \<times> event list" where
  "dashboard_init ms v m =
     (let (dk, evs1) = derek_try ms;
          (px, evs2) =
            guarded_construct PerplexityServiceCls ''Perplexity Service ready''
              ''Perplexity unavailable'' (PerplexityService ms);
          (me, evs3) =
            guarded_construct MemoryEngineCls ''Memory Engine ready''
              ''Memory Engine unavailable'' (MemoryEngine ms);
          (ce, evs4) =
            guarded_construct ConversationEngineCls ''Conversation Engine ready''
              ''Conversation Engine unavailable'' (ConversationEngine ms)
      in (Returned
            \<lparr>memory_engine = me, conversation_engine = ce, perplexity_service = px,
             derek = dk, derek_ultimate_voice = v, memory = m, vision = None\<rparr>,
          LogInfo (replicate 60 (CHR ''='')) # LogInfo ''Initializing Derek Dashboard''
            # LogInfo ''The Christman AI Project - AI That Empowers''
            # LogInfo (replicate 60 (CHR ''='')) # evs1 @ evs2 @ evs3 @ evs4))"

text \<open>The whole initialisation: the module-level block, then \<open>DerekDashboard()\<close>.\<close>

definition initializer :: "modules \<Rightarrow> dashboard py \<times> event list" where
  "initializer ms =
     (case core_init ms of
        (Raised, evs) \<Rightarrow> (Raised, evs)
      | (Returned (v, m), evs) \<Rightarrow>
          (case dashboard_init ms v m of (r, evs') \<Rightarrow> (r, evs @ evs')))"

subsection \<open>\<open>start\<close> and \<open>stop\<close>\<close>

definition greeting :: string where
  "greeting = ''Hello, I am Derek, ready to assist you.''"

definition start :: "dashboard \<Rightarrow> unit py \<times> event list" where
  "start d =
     (case derek_ultimate_voice d of
        None \<Rightarrow> (Returned (), [LogInfo ''Derek Dashboard is now active''])
      | Some v \<Rightarrow>
          (if has_speak v then
             (case speak v greeting of
                (Raised, evs) \<Rightarrow>
                  (Returned (),
                   LogInfo ''Derek Dashboard is now active'' # LogInfo (''Derek: '' @ greeting) # evs
                     @ [LogWarning ''Failed to speak greeting''])
              | (Returned u, evs) \<Rightarrow>
                  (Returned (),
                   LogInfo ''Derek Dashboard is now active'' # LogInfo (''Derek: '' @ greeting) # evs))
           else (Returned (), [LogInfo ''Derek Dashboard is now active'', LogInfo (''Derek: '' @ greeting)])))"

definition save_engine :: "memory_engine \<Rightarrow> unit py \<times> event list" where
  "save_engine e =
     (if engine_save_raises e then (Raised, [ShutdownCalled MemoryEngineSub])
      else (Returned (), [ShutdownCalled MemoryEngineSub]))"

definition save_memory :: "memory_bridge \<Rightarrow> unit py \<times> event list" where
  "save_memory m =
     (if save_raises m then (Raised, [ShutdownCalled MemorySub])
      else (Returned (), [ShutdownCalled MemorySub]))"

definition stop_vision :: "vision \<Rightarrow> unit py \<times> event list" where
  "stop_vision v =
     (if stop_raises v then (Raised, [ShutdownCalled VisionSub])
      else (Returned (), [ShutdownCalled VisionSub]))"

text \<open>\<open>if h: h.call()\<close>\<close>

definition if_present :: "'h option \<Rightarrow> ('h \<Rightarrow> unit py \<times> event list) \<Rightarrow> unit py \<times> event list" where
  "if_present h f = (case h of None \<Rightarrow> (Returned (), []) | Some x \<Rightarrow> f x)"

text \<open>The body of the \<open>try\<close> of \<open>stop\<close>: three statements in sequence.\<close>

definition stop_try :: "dashboard \<Rightarrow> unit py \<times> event list" where
  "stop_try d =
     (case if_present (memory_engine d) save_engine of
        (Raised, evs1) \<Rightarrow> (Raised, evs1)
      | (Returned u, evs1) \<Rightarrow>
          (case if_present (memory d) save_memory of
             (Raised, evs2) \<Rightarrow> (Raised, evs1 @ evs2)
           | (Returned u, evs2) \<Rightarrow>
               (case if_present (vision d) stop_vision of
                  (Raised, evs3) \<Rightarrow> (Raised, evs1 @ evs2 @ evs3)
                | (Returned u, evs3) \<Rightarrow> (Returned (), evs1 @ evs2 @ evs3))))"

definition stop :: "dashboard \<Rightarrow> unit py \<times> event list" where
  "stop d =
     (case stop_try d of
        (Raised, evs) \<Rightarrow>
          (Returned (),
           LogInfo ''Shutting down Derek Dashboard services...'' # evs
             @ [LogError ''Error saving memory on shutdown'',
                LogInfo ''Derek Dashboard stopped cleanly.''])
      | (Returned u, evs) \<Rightarrow>
          (Returned (),
           LogInfo ''Shutting down Derek Dashboard services...'' # evs
             @ [LogInfo ''Derek Dashboard stopped cleanly.'']))"

subsection \<open>Text operations of the loop\<close>

text \<open>
  \<open>str.lower\<close> on code points below 256: the ASCII capitals and the Latin-1
  capitals (all of 192 to 222 but the multiplication sign 215) move up by 32.
\<close>

definition lower_char :: "char \<Rightarrow> char" where
  "lower_char c =
     (let n = (of_char c :: nat)
      in if (65 \<le> n \<and> n \<le> 90) \<or> (192 \<le> n \<and> n \<le> 222 \<and> n \<noteq> 215)
         then char_of (n + 32) else c)"

definition lower :: "string \<Rightarrow> string" where
  "lower s = map lower_char s"

text \<open>\<open>str.isspace\<close> on code points below 256.\<close>

definition isspace :: "char \<Rightarrow> bool" where
  "isspace c =
     (let n = (of_char c :: nat)
      in (9 \<le> n \<and> n \<le> 13) \<or> (28 \<le> n \<and> n \<le> 32) \<or> n = 133 \<or> n = 160)"

text \<open>\<open>str.strip()\<close>\<close>

definition strip :: "string \<Rightarrow> string" where
  "strip s = rev (dropWhile isspace (rev (dropWhile isspace s)))"

text \<open>\<open>word in text\<close>: \<open>word\<close> occurs in \<open>text\<close> as a contiguous run.\<close>

fun contains :: "string \<Rightarrow> string \<Rightarrow> bool" where
  "contains [] word = (word = [])"
| "contains (c # cs) word = (prefix word (c # cs) \<or> contains cs word)"

definition termination_words :: "string list" where
  "termination_words = [''goodbye'', ''exit'', ''quit'', ''stop'']"

text \<open>\<open>any(word in text.lower() for word in [...])\<close>\<close>

definition is_termination :: "string \<Rightarrow> bool" where
  "is_termination text = list_ex (contains (lower text)) termination_words"

definition farewell :: string where
  "farewell = ''Goodbye! See you next time.''"

subsection \<open>The loop of \<open>main\<close>\<close>

text \<open>
  What the outside world gives to one pass of the loop: what the microphone and the
  recogniser would do, what the keyboard would do, and the clock.
\<close>

datatype audio = ListenRaises | RecognizeRaises | Recognized string

datatype keyboard = InputRaises | Line string

record turn_env =
  heard :: audio
  typed :: keyboard
  clock :: string

text \<open>
  Acquiring the text (lines 225 to 236).  \<open>listen\<close> is outside the \<open>try\<close>, so when
  it raises the exception leaves the loop; \<open>recognize_google\<close> is inside, and when
  it raises the pass ends with \<open>continue\<close>.
\<close>

datatype acquired = Propagates | Continue | Text string

definition acquire :: "bool \<Rightarrow> turn_env \<Rightarrow> acquired \<times> event list" where
  "acquire mic e =
     (if mic then
        (case heard e of
           ListenRaises \<Rightarrow> (Propagates, [Printed ''Listening...'', ListenCalled])
         | RecognizeRaises \<Rightarrow>
             (Continue,
              [Printed ''Listening...'', ListenCalled, RecognizeCalled,
               Printed ''Speech recognition error''])
         | Recognized text \<Rightarrow>
             (Text text,
              [Printed ''Listening...'', ListenCalled, RecognizeCalled,
               Printed (''You said: '' @ text)]))
      else
        (case typed e of
           InputRaises \<Rightarrow> (Propagates, [InputCalled])
         | Line l \<Rightarrow> (Text (strip l), [InputCalled])))"

text \<open>
  How the loop stands after the given passes: \<open>Listening\<close> when it is back at the
  top of \<open>while True\<close> waiting for the next utterance, \<open>Broke\<close> when \<open>break\<close> ran,
  \<open>Escaped\<close> when an exception left the loop.  The last two are the terminated
  loop.
\<close>

datatype loop_exit = Listening | Broke | Escaped

text \<open>The termination branch (lines 239 to 243); the \<open>speak\<close> call is not guarded.\<close>

definition say_farewell :: "dashboard \<Rightarrow> loop_exit \<times> event list" where
  "say_farewell d =
     (case derek_ultimate_voice d of
        None \<Rightarrow> (Broke, [Printed (''Derek: '' @ farewell)])
      | Some v \<Rightarrow>
          (case speak v farewell of
             (Raised, evs) \<Rightarrow> (Escaped, Printed (''Derek: '' @ farewell) # evs)
           | (Returned u, evs) \<Rightarrow> (Broke, Printed (''Derek: '' @ farewell) # evs)))"

text \<open>
  One pass of the loop body.  The first component is \<open>None\<close> when the pass ends and
  the loop goes round again, and the way the loop ends otherwise.
\<close>

definition iteration ::
  "bool \<Rightarrow> dashboard \<Rightarrow> turn_env \<Rightarrow> loop_exit option \<times> dashboard \<times> event list" where
  "iteration mic d e =
     (case acquire mic e of
        (Propagates, evs) \<Rightarrow> (Some Escaped, d, evs)
      | (Continue, evs) \<Rightarrow> (None, d, evs)
      | (Text text, evs) \<Rightarrow>
          (if is_termination text then
             (case say_farewell d of (x, evs') \<Rightarrow> (Some x, d, evs @ evs'))
           else
             (case process_message (clock e) d text of
                (Raised, d', evs') \<Rightarrow> (Some Escaped, d', evs @ ProcessCalled text # evs')
              | (Returned response, d', evs') \<Rightarrow>
                  (None, d', evs @ ProcessCalled text # evs' @ [Printed (''Derek: '' @ response)]))))"

fun interaction_loop ::
  "bool \<Rightarrow> dashboard \<Rightarrow> turn_env list \<Rightarrow> loop_exit \<times> dashboard \<times> event list" where
  "interaction_loop mic d [] = (Listening, d, [])"
| "interaction_loop mic d (e # es) =
     (case iteration mic d e of
        (Some x, d', evs) \<Rightarrow> (x, d', evs)
      | (None, d', evs) \<Rightarrow>
          (case interaction_loop mic d' es of (x, d'', evs') \<Rightarrow> (x, d'', evs @ evs')))"

text \<open>
  The rest of \<open>main\<close> from \<open>while True\<close> on (lines 224 to 252): the loop, the
  handler of the outer \<open>try\<close>, which logs a fatal error when an exception escaped
  the loop, and the \<open>finally\<close> clause, which calls \<open>stop\<close>.  \<open>mic\<close> tells whether
  the microphone was set up.  While the loop is still listening neither the handler
  nor \<open>stop\<close> has run.
\<close>

definition main_loop ::
  "bool \<Rightarrow> dashboard \<Rightarrow> turn_env list \<Rightarrow> loop_exit \<times> dashboard \<times> event list" where
  "main_loop mic d es =
     (case interaction_loop mic d es of
        (Listening, d', evs) \<Rightarrow> (Listening, d', evs)
      | (Broke, d', evs) \<Rightarrow> (Broke, d', evs @ snd (stop d'))
      | (Escaped, d', evs) \<Rightarrow>
          (Escaped, d', evs @ LogError ''Fatal error'' # snd (stop d')))"

subsection \<open>Readings of the trace and of the classes\<close>

fun is_store :: "event \<Rightarrow> bool" where
  "is_store (StoreCalled e) = True"
| "is_store _ = False"

fun is_speak :: "event \<Rightarrow> bool" where
  "is_speak (SpeakCalled t) = True"
| "is_speak _ = False"

fun is_process :: "event \<Rightarrow> bool" where
  "is_process (ProcessCalled t) = True"
| "is_process _ = False"

text \<open>The constructor of the class builds a handle; the constructor raises.\<close>

definition builds :: "'h ctor option \<Rightarrow> bool" where
  "builds cls = (case cls of Some (CtorBuilds h) \<Rightarrow> True | _ \<Rightarrow> False)"

definition raises :: "'h ctor option \<Rightarrow> bool" where
  "raises cls = (case cls of Some CtorRaises \<Rightarrow> True | _ \<Rightarrow> False)"

text \<open>The call that \<open>stop\<close> makes on a subsystem raises.\<close>

definition engine_fails :: "dashboard \<Rightarrow> bool" where
  "engine_fails d = (case memory_engine d of None \<Rightarrow> False | Some e \<Rightarrow> engine_save_raises e)"

definition memory_fails :: "dashboard \<Rightarrow> bool" where
  "memory_fails d = (case memory d of None \<Rightarrow> False | Some m \<Rightarrow> save_raises m)"

subsection \<open>Concrete collaborators\<close>

definition sunny_reasoner :: reasoner where
  "sunny_reasoner = \<lparr>think = (\<lambda>m. Returned [(''response'', ''It is sunny'')])\<rparr>"

definition silent_reasoner :: reasoner where
  "silent_reasoner = \<lparr>think = (\<lambda>m. Returned [])\<rparr>"

definition failing_reasoner :: reasoner where
  "failing_reasoner = \<lparr>think = (\<lambda>m. Raised)\<rparr>"

definition parrot_reasoner :: reasoner where
  "parrot_reasoner = \<lparr>think = (\<lambda>m. Returned [(''response'', m)])\<rparr>"

definition empty_memory :: memory_bridge where
  "empty_memory = \<lparr>entries = [], store_raises = (\<lambda>e. False), save_raises = False\<rparr>"

definition failing_memory :: memory_bridge where
  "failing_memory = \<lparr>entries = [], store_raises = (\<lambda>e. True), save_raises = False\<rparr>"

definition good_voice :: voice where
  "good_voice = \<lparr>has_speak = True, speak_raises = (\<lambda>t. False)\<rparr>"


definition bare_dashboard :: dashboard where
  "bare_dashboard =
     \<lparr>memory_engine = None, conversation_engine = None, perplexity_service = None,
      derek = None, derek_ultimate_voice = None, memory = None, vision = None\<rparr>"

definition all_building :: modules where
  "all_building =
     \<lparr>PerplexityService = Some (CtorBuilds ()),
      MemoryEngine = Some (CtorBuilds \<lparr>engine_save_raises = False\<rparr>),
      ConversationEngine = Some (CtorBuilds ()),
      Derek = Some (CtorBuilds sunny_reasoner),
      DerekUltimateVoice = Some (CtorBuilds good_voice),
      MemoryMeshBridge = Some (CtorBuilds empty_memory)\<rparr>"

definition voice_failing :: modules where
  "voice_failing = all_building\<lparr>DerekUltimateVoice := Some CtorRaises\<rparr>"

definition memory_failing :: modules where
  "memory_failing = all_building\<lparr>MemoryMeshBridge := Some CtorRaises\<rparr>"

definition said :: "string \<Rightarrow> turn_env" where
  "said t = \<lparr>heard = Recognized t, typed = Line t, clock = ''2026-01-01T00:00:00''\<rparr>"

section \<open>Properties of \<open>process_message\<close>\<close>

lemma process_message_absent:
  "derek d = None \<Longrightarrow> process_message now d message = (Returned system_not_ready, d, [])"
  by (simp add: process_message_def)

lemma process_message_reply:
  "derek d = Some r \<Longrightarrow>
   fst (process_message now d message) =
     Returned (case think r message of Raised \<Rightarrow> error_processing
               | Returned response \<Rightarrow> get_response response)"
  by (simp add: process_message_def store_def Let_def split: py.splits option.splits)

lemma process_message_returns:
  "\<exists>reply. fst (process_message now d message) = Returned reply"
  by (cases "derek d") (simp_all add: process_message_absent process_message_reply)

lemma process_message_any_memory:
  "fst (process_message now (d\<lparr>memory := mem\<rparr>) message) = fst (process_message now d message)"
  by (simp add: process_message_def store_def Let_def split: py.splits option.splits)

lemma process_message_stored:
  assumes "derek d = Some r" and "think r message = Returned response"
    and "memory d = Some m"
  shows "process_message now d message =
     (let e = conversation_entry now message (get_response response)
      in (Returned (get_response response),
          d\<lparr>memory := Some (if store_raises m e then m else m\<lparr>entries := entries m @ [e]\<rparr>)\<rparr>,
          if store_raises m e
          then [ThinkCalled message, StoreCalled e, LogDebug ''Memory store failed'']
          else [ThinkCalled message, StoreCalled e]))"
  using assms by (simp add: process_message_def store_def Let_def)

text \<open>
  Claim C2, with the texts the code uses.  When the reasoner is present,
  \<open>process_message\<close> does not raise and returns one reply: the fixed reply
  \<open>Error processing message.\<close> when \<open>think\<close> raises, the placeholder \<open>[No output]\<close>
  when the result has no field \<open>response\<close>, and the text of that field otherwise,
  whatever the memory does.
\<close>

theorem process_message_reply_kinds:
  assumes "derek d = Some r"
  shows "\<exists>reply. fst (process_message now d message) = Returned reply \<and>
     (case think r message of
        Raised \<Rightarrow> reply = ''Error processing message.''
      | Returned response \<Rightarrow>
          (case map_of response ''response'' of
             None \<Rightarrow> reply = ''[No output]''
           | Some t \<Rightarrow> reply = t))"
  using process_message_reply [OF assms, of now message]
  by (simp add: get_response_def error_processing_def no_output_def split: py.splits option.splits)

theorem process_message_reply_kinds_witness:
  "derek (bare_dashboard\<lparr>derek := Some silent_reasoner\<rparr>) = Some silent_reasoner \<and>
   fst (process_message ''t'' (bare_dashboard\<lparr>derek := Some silent_reasoner\<rparr>) ''hi'') =
     Returned ''[No output]'' \<and>
   derek (bare_dashboard\<lparr>derek := Some failing_reasoner\<rparr>) = Some failing_reasoner \<and>
   fst (process_message ''t'' (bare_dashboard\<lparr>derek := Some failing_reasoner\<rparr>) ''hi'') =
     Returned ''Error processing message.'' \<and>
   derek (bare_dashboard\<lparr>derek := Some parrot_reasoner\<rparr>) = Some parrot_reasoner \<and>
   fst (process_message ''t'' (bare_dashboard\<lparr>derek := Some parrot_reasoner\<rparr>) ''hi'') =
     Returned ''hi''"
  using process_message_reply_kinds [of "bare_dashboard\<lparr>derek := Some silent_reasoner\<rparr>"
      silent_reasoner "''t''" "''hi''"]
    process_message_reply_kinds [of "bare_dashboard\<lparr>derek := Some failing_reasoner\<rparr>"
      failing_reasoner "''t''" "''hi''"]
    process_message_reply_kinds [of "bare_dashboard\<lparr>derek := Some parrot_reasoner\<rparr>"
      parrot_reasoner "''t''" "''hi''"]
  by (simp add: silent_reasoner_def failing_reasoner_def parrot_reasoner_def)

text \<open>
  The claim C2 as worded names the placeholder \<open>[no output]\<close> and the error reply
  \<open>error processing message\<close>.  For a reasoner whose result has no field
  \<open>response\<close> the reply is \<open>[No output]\<close>, which is neither of them and is not a text
  of the reasoner.
\<close>

theorem process_message_placeholder_counterexample:
  "derek (bare_dashboard\<lparr>derek := Some silent_reasoner\<rparr>) = Some silent_reasoner \<and>
   think silent_reasoner ''hi'' = Returned [] \<and>
   map_of ([] :: (string \<times> string) list) ''response'' = None \<and>
   fst (process_message ''t'' (bare_dashboard\<lparr>derek := Some silent_reasoner\<rparr>) ''hi'') = Returned ''[No output]'' \<and>
   ''[No output]'' \<noteq> ''[no output]'' \<and>
   ''[No output]'' \<noteq> ''error processing message''"
  by (simp add: process_message_def silent_reasoner_def bare_dashboard_def get_response_def no_output_def)

text \<open>
  Claim C3, amended.  For every utterance, the empty one included: when the reasoner
  is absent \<open>process_message\<close> returns \<open>System not ready.\<close>, leaves the dashboard
  (and so the memory) as it was and makes no call at all; when the reasoner is
  present the reply is \<open>System not ready.\<close> exactly when that is the text of the field
  \<open>response\<close> of the reasoner's own result.
\<close>

theorem not_ready_when_reasoner_absent:
  "(derek d = None \<longrightarrow>
      process_message now d message = (Returned ''System not ready.'', d, [])) \<and>
   (\<forall>r. derek d = Some r \<longrightarrow>
      (fst (process_message now d message) = Returned ''System not ready.'') =
      (case think r message of
         Raised \<Rightarrow> False
       | Returned response \<Rightarrow> map_of response ''response'' = Some ''System not ready.''))"
proof (cases "derek d")
  case None
  then show ?thesis by (simp add: process_message_absent system_not_ready_def)
next
  case (Some r)
  then show ?thesis
    by (simp add: process_message_reply get_response_def error_processing_def no_output_def
        split: py.splits option.splits)
qed

theorem not_ready_when_reasoner_absent_witness:
  "derek bare_dashboard = None \<and>
   process_message ''t'' bare_dashboard [] = (Returned ''System not ready.'', bare_dashboard, []) \<and>
   derek (bare_dashboard\<lparr>derek := Some sunny_reasoner\<rparr>) = Some sunny_reasoner \<and>
   fst (process_message ''t'' (bare_dashboard\<lparr>derek := Some sunny_reasoner\<rparr>) []) \<noteq> Returned ''System not ready.''"
  using not_ready_when_reasoner_absent [of bare_dashboard "''t''" "[]"]
    not_ready_when_reasoner_absent [of "bare_dashboard\<lparr>derek := Some sunny_reasoner\<rparr>" "''t''" "[]"]
  by (simp add: bare_dashboard_def sunny_reasoner_def)

text \<open>
  The "only if" half of claim C3 fails: a present reasoner that answers with the
  text of the fixed reply makes \<open>process_message\<close> return it, in the spelling of the
  code and in the spelling of the claim; and with the reasoner absent the reply is
  not the claim's spelling \<open>system not ready\<close>.
\<close>

theorem not_ready_iff_counterexample:
  "derek (bare_dashboard\<lparr>derek := Some parrot_reasoner\<rparr>) \<noteq> None \<and>
   fst (process_message ''t'' (bare_dashboard\<lparr>derek := Some parrot_reasoner\<rparr>) ''System not ready.'')
     = Returned ''System not ready.'' \<and>
   fst (process_message ''t'' (bare_dashboard\<lparr>derek := Some parrot_reasoner\<rparr>) ''system not ready'')
     = Returned ''system not ready'' \<and>
   fst (process_message ''t'' bare_dashboard '''') \<noteq> Returned ''system not ready''"
  by (simp add: process_message_def parrot_reasoner_def bare_dashboard_def get_response_def
      system_not_ready_def)

text \<open>
  Claim C4.  With the reasoner present and answering \<open>What is the weather\<close> by the
  result \<open>{"response": "It is sunny"}\<close>, \<open>process_message\<close> returns exactly
  \<open>It is sunny\<close>.  When the memory is present, \<open>store\<close> is called exactly once, with
  the entry of category \<open>conversation\<close>, importance 0.7, content
  \<open>What is the weather -> It is sunny\<close> (the prefixes of at most 50 characters of the
  utterance and of the reply) and the current time as timestamp; the memory then
  holds exactly that one entry more, unless the call raised.  When the memory is
  absent only \<open>think\<close> is called.
\<close>

theorem weather_turn:
  assumes "derek d = Some r"
    and "think r ''What is the weather'' = Returned [(''response'', ''It is sunny'')]"
  shows "fst (process_message now d ''What is the weather'') = Returned ''It is sunny'' \<and>
    (case memory d of
       None \<Rightarrow>
         process_message now d ''What is the weather'' =
           (Returned ''It is sunny'', d, [ThinkCalled ''What is the weather''])
     | Some m \<Rightarrow>
         filter is_store (snd (snd (process_message now d ''What is the weather''))) =
           [StoreCalled \<lparr>category = ''conversation'',
                         content = ''What is the weather -> It is sunny'',
                         importance = 7 / 10, timestamp = now\<rparr>] \<and>
         memory (fst (snd (process_message now d ''What is the weather''))) =
           Some (if store_raises m \<lparr>category = ''conversation'',
                         content = ''What is the weather -> It is sunny'',
                         importance = 7 / 10, timestamp = now\<rparr>
                 then m
                 else m\<lparr>entries := entries m @
                        [\<lparr>category = ''conversation'',
                          content = ''What is the weather -> It is sunny'',
                          importance = 7 / 10, timestamp = now\<rparr>]\<rparr>))"
proof (cases "memory d")
  case None
  with assms show ?thesis
    by (simp add: process_message_def get_response_def)
next
  case (Some m)
  have "get_response [(''response'', ''It is sunny'')] = ''It is sunny''"
    by (simp add: get_response_def)
  with Some assms show ?thesis
    by (simp add: process_message_stored conversation_entry_def Let_def)
qed

theorem weather_turn_witness:
  "derek (bare_dashboard\<lparr>derek := Some sunny_reasoner, memory := Some empty_memory\<rparr>) = Some sunny_reasoner \<and>
   think sunny_reasoner ''What is the weather'' = Returned [(''response'', ''It is sunny'')] \<and>
   fst (process_message ''2026-11-03T10:00:00''
         (bare_dashboard\<lparr>derek := Some sunny_reasoner, memory := Some empty_memory\<rparr>)
         ''What is the weather'') = Returned ''It is sunny'' \<and>
   memory (fst (snd (process_message ''2026-11-03T10:00:00''
         (bare_dashboard\<lparr>derek := Some sunny_reasoner, memory := Some empty_memory\<rparr>)
         ''What is the weather''))) =
     Some (empty_memory\<lparr>entries :=
        [\<lparr>category = ''conversation'', content = ''What is the weather -> It is sunny'',
          importance = 7 / 10, timestamp = ''2026-11-03T10:00:00''\<rparr>]\<rparr>)"
  using weather_turn [of "bare_dashboard\<lparr>derek := Some sunny_reasoner, memory := Some empty_memory\<rparr>"
      sunny_reasoner "''2026-11-03T10:00:00''"]
  by (simp add: sunny_reasoner_def empty_memory_def)

text \<open>
  Claim C5.  For every utterance, when the memory is present and its \<open>store\<close> raises,
  \<open>process_message\<close> returns (it does not raise) and its reply is the reply of the
  same call with the memory absent; the memory is left as it was.
\<close>

theorem failing_store_keeps_reply:
  assumes "memory d = Some m" and "\<forall>e. store_raises m e"
  shows "fst (process_message now d message) =
           fst (process_message now (d\<lparr>memory := None\<rparr>) message) \<and>
         (\<exists>reply. fst (process_message now d message) = Returned reply) \<and>
         memory (fst (snd (process_message now d message))) = Some m"
proof -
  have "memory (fst (snd (process_message now d message))) = Some m"
    using assms
    by (simp add: process_message_def store_def Let_def split: py.splits option.splits)
  then show ?thesis
    by (simp add: process_message_any_memory process_message_returns)
qed

theorem failing_store_keeps_reply_witness:
  "memory (bare_dashboard\<lparr>derek := Some parrot_reasoner, memory := Some failing_memory\<rparr>) = Some failing_memory \<and>
   (\<forall>e. store_raises failing_memory e) \<and>
   fst (process_message ''t'' (bare_dashboard\<lparr>derek := Some parrot_reasoner, memory := Some failing_memory\<rparr>) ''hello'') =
   fst (process_message ''t'' (bare_dashboard\<lparr>derek := Some parrot_reasoner, memory := None\<rparr>) ''hello'')"
  using failing_store_keeps_reply [of "bare_dashboard\<lparr>derek := Some parrot_reasoner, memory := Some failing_memory\<rparr>"
      failing_memory "''t''" "''hello''"]
  by (simp add: failing_memory_def)

section \<open>Properties of the initialisation\<close>

lemma guarded_construct_present:
  "(fst (guarded_construct n ready unavailable cls) \<noteq> None) = builds cls"
  by (simp add: guarded_construct_def call_ctor_def builds_def split: option.splits ctor.splits)

lemma guarded_construct_called:
  "(ConstructCalled k \<in> set (snd (guarded_construct n ready unavailable cls))) =
     (k = n \<and> cls \<noteq> None)"
  by (auto simp: guarded_construct_def call_ctor_def split: option.splits ctor.splits)

lemma derek_try_present: "(fst (derek_try ms) \<noteq> None) = builds (Derek ms)"
  by (simp add: derek_try_def call_class_def call_ctor_def builds_def split: option.splits ctor.splits)

lemma derek_try_called:
  "(ConstructCalled k \<in> set (snd (derek_try ms))) = (k = DerekCls \<and> Derek ms \<noteq> None)"
  by (auto simp: derek_try_def call_class_def call_ctor_def split: option.splits ctor.splits)

lemma core_init_returns:
  "\<exists>v m. fst (core_init ms) = Returned (v, m) \<and>
     (v \<noteq> None) = (builds (DerekUltimateVoice ms) \<and> \<not> raises (MemoryMeshBridge ms)) \<and>
     (m \<noteq> None) = (builds (MemoryMeshBridge ms) \<and> \<not> raises (DerekUltimateVoice ms))"
  by (cases "DerekUltimateVoice ms"; cases "MemoryMeshBridge ms")
     (auto simp: core_init_def core_try_def construct_if_def call_ctor_def builds_def raises_def
        split: ctor.splits)

lemma core_init_called:
  "(ConstructCalled k \<in> set (snd (core_init ms))) =
     (k = DerekUltimateVoiceCls \<and> DerekUltimateVoice ms \<noteq> None \<or>
      k = MemoryMeshBridgeCls \<and> MemoryMeshBridge ms \<noteq> None \<and> \<not> raises (DerekUltimateVoice ms))"
  by (cases "DerekUltimateVoice ms"; cases "MemoryMeshBridge ms")
     (auto simp: core_init_def core_try_def construct_if_def call_ctor_def raises_def
        split: ctor.splits)

lemma dashboard_init_eq:
  "dashboard_init ms v m =
     (Returned
        \<lparr>memory_engine =
           fst (guarded_construct MemoryEngineCls ''Memory Engine ready''
                  ''Memory Engine unavailable'' (MemoryEngine ms)),
         conversation_engine =
           fst (guarded_construct ConversationEngineCls ''Conversation Engine ready''
                  ''Conversation Engine unavailable'' (ConversationEngine ms)),
         perplexity_service =
           fst (guarded_construct PerplexityServiceCls ''Perplexity Service ready''
                  ''Perplexity unavailable'' (PerplexityService ms)),
         derek = fst (derek_try ms), derek_ultimate_voice = v, memory = m, vision = None\<rparr>,
      LogInfo (replicate 60 (CHR ''='')) # LogInfo ''Initializing Derek Dashboard''
        # LogInfo ''The Christman AI Project - AI That Empowers''
        # LogInfo (replicate 60 (CHR ''='')) # snd (derek_try ms)
        @ snd (guarded_construct PerplexityServiceCls ''Perplexity Service ready''
                 ''Perplexity unavailable'' (PerplexityService ms))
        @ snd (guarded_construct MemoryEngineCls ''Memory Engine ready''
                 ''Memory Engine unavailable'' (MemoryEngine ms))
        @ snd (guarded_construct ConversationEngineCls ''Conversation Engine ready''
                 ''Conversation Engine unavailable'' (ConversationEngine ms)))"
  unfolding dashboard_init_def Let_def split_beta ..

lemma dashboard_init_returns:
  "\<exists>reg. fst (dashboard_init ms v m) = Returned reg \<and>
     derek_ultimate_voice reg = v \<and> memory reg = m \<and> vision reg = None \<and>
     (derek reg \<noteq> None) = builds (Derek ms) \<and>
     (perplexity_service reg \<noteq> None) = builds (PerplexityService ms) \<and>
     (memory_engine reg \<noteq> None) = builds (MemoryEngine ms) \<and>
     (conversation_engine reg \<noteq> None) = builds (ConversationEngine ms)"
  unfolding dashboard_init_eq
  by (simp add: guarded_construct_present derek_try_present del: not_None_eq)

lemma dashboard_init_called:
  "(ConstructCalled k \<in> set (snd (dashboard_init ms v m))) =
     (k = DerekCls \<and> Derek ms \<noteq> None \<or>
      k = PerplexityServiceCls \<and> PerplexityService ms \<noteq> None \<or>
      k = MemoryEngineCls \<and> MemoryEngine ms \<noteq> None \<or>
      k = ConversationEngineCls \<and> ConversationEngine ms \<noteq> None)"
  unfolding dashboard_init_eq
  by (simp add: guarded_construct_called derek_try_called)

lemma initializer_eq:
  assumes "fst (core_init ms) = Returned (v, m)"
  shows "initializer ms =
      (fst (dashboard_init ms v m), snd (core_init ms) @ snd (dashboard_init ms v m))"
  using assms by (cases "core_init ms") (simp add: initializer_def split: prod.splits)

text \<open>
  Claim C1, amended.  The initialisation never raises and returns a dashboard, for
  any classes.  The reasoner is present exactly when the constructor of \<open>Derek\<close>
  builds it, and the knowledge client exactly when the constructor of
  \<open>PerplexityService\<close> builds it; each of the two is attempted whenever its class
  exists.  The voice and the memory are built in one guarded block: the voice is
  present exactly when its constructor builds it and the constructor of the memory
  does not raise, the memory is present exactly when its constructor builds it and
  the constructor of the voice does not raise, and the constructor of the memory is
  attempted only when the constructor of the voice did not raise.
\<close>

theorem initializer_registry:
  "\<exists>reg evs. initializer ms = (Returned reg, evs) \<and>
     (derek reg \<noteq> None) = builds (Derek ms) \<and>
     (perplexity_service reg \<noteq> None) = builds (PerplexityService ms) \<and>
     (derek_ultimate_voice reg \<noteq> None) =
        (builds (DerekUltimateVoice ms) \<and> \<not> raises (MemoryMeshBridge ms)) \<and>
     (memory reg \<noteq> None) =
        (builds (MemoryMeshBridge ms) \<and> \<not> raises (DerekUltimateVoice ms)) \<and>
     (ConstructCalled DerekCls \<in> set evs) = (Derek ms \<noteq> None) \<and>
     (ConstructCalled PerplexityServiceCls \<in> set evs) = (PerplexityService ms \<noteq> None) \<and>
     (ConstructCalled DerekUltimateVoiceCls \<in> set evs) = (DerekUltimateVoice ms \<noteq> None) \<and>
     (ConstructCalled MemoryMeshBridgeCls \<in> set evs) =
        (MemoryMeshBridge ms \<noteq> None \<and> \<not> raises (DerekUltimateVoice ms))"
proof -
  obtain v m where vm: "fst (core_init ms) = Returned (v, m)"
    and v: "(v \<noteq> None) = (builds (DerekUltimateVoice ms) \<and> \<not> raises (MemoryMeshBridge ms))"
    and m: "(m \<noteq> None) = (builds (MemoryMeshBridge ms) \<and> \<not> raises (DerekUltimateVoice ms))"
    using core_init_returns [of ms] by blast
  obtain reg where reg: "fst (dashboard_init ms v m) = Returned reg"
    and voice: "derek_ultimate_voice reg = v" and mem: "memory reg = m"
    and dk: "(derek reg \<noteq> None) = builds (Derek ms)"
    and px: "(perplexity_service reg \<noteq> None) = builds (PerplexityService ms)"
    using dashboard_init_returns [of ms v m] by blast
  let ?evs = "snd (core_init ms) @ snd (dashboard_init ms v m)"
  have run: "initializer ms = (Returned reg, ?evs)"
    using initializer_eq [OF vm] reg by simp
  have called: "(ConstructCalled k \<in> set ?evs) =
      (ConstructCalled k \<in> set (snd (core_init ms)) \<or>
       ConstructCalled k \<in> set (snd (dashboard_init ms v m)))" for k
    by simp
  have c1: "(ConstructCalled DerekCls \<in> set ?evs) = (Derek ms \<noteq> None)"
    unfolding called by (simp add: core_init_called dashboard_init_called)
  have c2: "(ConstructCalled PerplexityServiceCls \<in> set ?evs) = (PerplexityService ms \<noteq> None)"
    unfolding called by (simp add: core_init_called dashboard_init_called)
  have c3: "(ConstructCalled DerekUltimateVoiceCls \<in> set ?evs) = (DerekUltimateVoice ms \<noteq> None)"
    unfolding called by (simp add: core_init_called dashboard_init_called)
  have c4: "(ConstructCalled MemoryMeshBridgeCls \<in> set ?evs) =
        (MemoryMeshBridge ms \<noteq> None \<and> \<not> raises (DerekUltimateVoice ms))"
    unfolding called by (simp add: core_init_called dashboard_init_called)
  from run dk px v m c1 c2 c3 c4 show ?thesis
    unfolding voice [symmetric] mem [symmetric] by blast
qed

theorem initializer_registry_witness:
  "\<exists>reg evs. initializer all_building = (Returned reg, evs) \<and>
     derek reg \<noteq> None \<and> perplexity_service reg \<noteq> None \<and>
     derek_ultimate_voice reg \<noteq> None \<and> memory reg \<noteq> None \<and>
     ConstructCalled MemoryMeshBridgeCls \<in> set evs"
proof -
  have "builds (Derek all_building)" "builds (PerplexityService all_building)"
    "builds (DerekUltimateVoice all_building)" "builds (MemoryMeshBridge all_building)"
    "\<not> raises (DerekUltimateVoice all_building)" "\<not> raises (MemoryMeshBridge all_building)"
    "MemoryMeshBridge all_building \<noteq> None"
    by (simp_all add: all_building_def builds_def raises_def)
  with initializer_registry [of all_building] show ?thesis
    by blast
qed

text \<open>
  Claim C1 as worded fails when only the constructor of the voice raises: the memory,
  whose constructor would build it, is absent from the registry, and its constructor
  is never called.  It fails again when only the constructor of the memory raises:
  the voice, already built, is absent from the registry.
\<close>

theorem initializer_isolation_counterexample:
  "raises (DerekUltimateVoice voice_failing) \<and>
   builds (MemoryMeshBridge voice_failing) \<and>
   (case fst (initializer voice_failing) of
      Raised \<Rightarrow> False
    | Returned reg \<Rightarrow> memory reg = None) \<and>
   ConstructCalled MemoryMeshBridgeCls \<notin> set (snd (initializer voice_failing)) \<and>
   raises (MemoryMeshBridge memory_failing) \<and>
   builds (DerekUltimateVoice memory_failing) \<and>
   (case fst (initializer memory_failing) of
      Raised \<Rightarrow> False
    | Returned reg \<Rightarrow> derek_ultimate_voice reg = None)"
  by (simp add: voice_failing_def memory_failing_def all_building_def builds_def raises_def
      initializer_def core_init_def core_try_def construct_if_def call_ctor_def
      dashboard_init_eq derek_try_def call_class_def guarded_construct_def)

section \<open>Properties of \<open>start\<close> and \<open>stop\<close>\<close>

text \<open>The greeting is guarded: \<open>start\<close> returns whatever the voice does.\<close>

lemma start_returns: "fst (start d) = Returned ()"
  by (simp add: start_def split: option.splits prod.splits py.splits)

lemma stop_returns: "fst (stop d) = Returned ()"
  by (simp add: stop_def split: prod.splits py.splits)

lemma stop_events:
  "set (snd (stop d)) \<inter> range ShutdownCalled = set (snd (stop_try d)) \<inter> range ShutdownCalled"
  by (auto simp: stop_def split: prod.splits py.splits)

lemma stop_called:
  "(ShutdownCalled s \<in> set (snd (stop d))) = (ShutdownCalled s \<in> set (snd (stop_try d)))"
  using stop_events [of d] by blast

lemma stop_try_called:
  "(ShutdownCalled s \<in> set (snd (stop_try d))) =
     (s = MemoryEngineSub \<and> memory_engine d \<noteq> None \<or>
      s = MemorySub \<and> memory d \<noteq> None \<and> \<not> engine_fails d \<or>
      s = VisionSub \<and> vision d \<noteq> None \<and> \<not> engine_fails d \<and> \<not> memory_fails d)"
  by (cases "memory_engine d"; cases "memory d"; cases "vision d")
     (auto simp: stop_try_def if_present_def save_engine_def save_memory_def stop_vision_def
        engine_fails_def memory_fails_def)

text \<open>
  Claim C6, amended.  \<open>stop\<close> never raises.  It makes its calls in one guarded block
  and in a fixed order: \<open>save\<close> on the memory engine when it is present; then
  \<open>save\<close> on the memory when it is present, but only if the call on the engine did
  not raise; then \<open>stop\<close> on the vision when it is present, but only if neither
  earlier call raised.  So every attempt is made when none fails, and the first
  failure, which is caught and logged, ends the attempts.
\<close>

theorem stop_attempts:
  "fst (stop d) = Returned () \<and>
   (ShutdownCalled MemoryEngineSub \<in> set (snd (stop d))) = (memory_engine d \<noteq> None) \<and>
   (ShutdownCalled MemorySub \<in> set (snd (stop d))) = (memory d \<noteq> None \<and> \<not> engine_fails d) \<and>
   (ShutdownCalled VisionSub \<in> set (snd (stop d))) =
      (vision d \<noteq> None \<and> \<not> engine_fails d \<and> \<not> memory_fails d)"
  by (simp add: stop_returns stop_called stop_try_called del: not_None_eq)

theorem stop_attempts_witness:
  "fst (stop (bare_dashboard\<lparr>memory_engine := Some \<lparr>engine_save_raises = False\<rparr>,
                              memory := Some (empty_memory\<lparr>save_raises := True\<rparr>),
                              vision := Some \<lparr>stop_raises = False\<rparr>\<rparr>)) = Returned () \<and>
   ShutdownCalled MemoryEngineSub \<in> set (snd (stop (bare_dashboard\<lparr>memory_engine := Some \<lparr>engine_save_raises = False\<rparr>,
                              memory := Some (empty_memory\<lparr>save_raises := True\<rparr>),
                              vision := Some \<lparr>stop_raises = False\<rparr>\<rparr>))) \<and>
   ShutdownCalled MemorySub \<in> set (snd (stop (bare_dashboard\<lparr>memory_engine := Some \<lparr>engine_save_raises = False\<rparr>,
                              memory := Some (empty_memory\<lparr>save_raises := True\<rparr>),
                              vision := Some \<lparr>stop_raises = False\<rparr>\<rparr>))) \<and>
   ShutdownCalled VisionSub \<notin> set (snd (stop (bare_dashboard\<lparr>memory_engine := Some \<lparr>engine_save_raises = False\<rparr>,
                              memory := Some (empty_memory\<lparr>save_raises := True\<rparr>),
                              vision := Some \<lparr>stop_raises = False\<rparr>\<rparr>)))"
  using stop_attempts [of "bare_dashboard\<lparr>memory_engine := Some \<lparr>engine_save_raises = False\<rparr>,
                              memory := Some (empty_memory\<lparr>save_raises := True\<rparr>),
                              vision := Some \<lparr>stop_raises = False\<rparr>\<rparr>"]
  by (simp add: engine_fails_def memory_fails_def)

text \<open>
  Claim C6 as worded fails when \<open>save\<close> of the memory engine raises while the memory
  is present and would save: \<open>stop\<close> returns, but \<open>save\<close> of the memory is never
  called.
\<close>

theorem stop_isolation_counterexample:
  "memory (bare_dashboard\<lparr>memory_engine := Some \<lparr>engine_save_raises = True\<rparr>,
                          memory := Some empty_memory\<rparr>) = Some empty_memory \<and>
   \<not> save_raises empty_memory \<and>
   stop (bare_dashboard\<lparr>memory_engine := Some \<lparr>engine_save_raises = True\<rparr>,
                        memory := Some empty_memory\<rparr>) =
     (Returned (),
      [LogInfo ''Shutting down Derek Dashboard services...'',
       ShutdownCalled MemoryEngineSub,
       LogError ''Error saving memory on shutdown'',
       LogInfo ''Derek Dashboard stopped cleanly.''])"
  by (simp add: stop_def stop_try_def if_present_def save_engine_def bare_dashboard_def
      empty_memory_def)

section \<open>Properties of the loop\<close>



lemma strip_whitespace:
  assumes "\<forall>c \<in> set l. isspace c"
  shows "strip l = []"
proof -
  have none_left: "dropWhile isspace l = []"
    using assms by (induction l) simp_all
  show ?thesis
    unfolding strip_def none_left by simp
qed

lemma empty_not_termination: "\<not> is_termination []"
  by (simp add: is_termination_def termination_words_def lower_def)

lemma hello_not_termination: "\<not> is_termination ''hello''"
  by code_simp

lemma acquire_quiet:
  "filter is_speak (snd (acquire mic e)) = [] \<and> filter is_process (snd (acquire mic e)) = [] \<and>
   filter is_store (snd (acquire mic e)) = []"
  by (simp add: acquire_def split: audio.splits keyboard.splits)

lemma process_message_quiet:
  "filter is_speak (snd (snd (process_message now d message))) = [] \<and>
   filter is_process (snd (snd (process_message now d message))) = []"
  by (simp add: process_message_def store_def Let_def split: option.splits py.splits)

lemma say_farewell_events:
  "fst (say_farewell d) \<noteq> Listening \<and>
   Printed (''Derek: '' @ farewell) \<in> set (snd (say_farewell d)) \<and>
   filter is_process (snd (say_farewell d)) = [] \<and>
   filter is_store (snd (say_farewell d)) = [] \<and>
   (SpeakCalled farewell \<in> set (snd (say_farewell d))) =
     (case derek_ultimate_voice d of None \<Rightarrow> False | Some v \<Rightarrow> has_speak v)"
  by (simp add: say_farewell_def speak_def split: option.splits)

lemma iteration_termination:
  assumes "fst (acquire mic e) = Text text" and "is_termination text"
  shows "iteration mic d e =
     (Some (fst (say_farewell d)), d, snd (acquire mic e) @ snd (say_farewell d))"
  using assms by (cases "acquire mic e") (simp add: iteration_def split: prod.splits)

lemma iteration_dispatch:
  assumes "fst (acquire mic e) = Text text" and "\<not> is_termination text"
    and "process_message (clock e) d text = (Returned reply, d', evs)"
  shows "iteration mic d e =
     (None, d', snd (acquire mic e) @ ProcessCalled text # evs @ [Printed (''Derek: '' @ reply)])"
  using assms by (cases "acquire mic e") (simp add: iteration_def)

lemma process_message_triple:
  "\<exists>reply d' evs. process_message now d message = (Returned reply, d', evs)"
  using process_message_returns [of now d message]
  by (cases "process_message now d message") auto


lemma acquire_typed: "typed e = Line l \<Longrightarrow> acquire False e = (Text (strip l), [InputCalled])"
  by (simp add: acquire_def)

lemma strip_unpadded:
  "strip ''GOODBYE now'' = ''GOODBYE now''" "strip ''goodbye'' = ''goodbye''"
  "strip ''hello'' = ''hello''" "strip ''   '' = []"
  by (simp_all add: strip_def isspace_def)



text \<open>
  Claim C8, amended to recognition failures.  With the microphone set up, a pass in
  which \<open>recognize_google\<close> raises prints the error and goes round again: the
  dashboard is unchanged, \<open>process_message\<close> is not called, the loop does not end,
  and it carries on with whatever comes next.
\<close>

theorem recognition_failure_relistens:
  assumes "heard e = RecognizeRaises"
  shows "iteration True d e =
       (None, d,
        [Printed ''Listening...'', ListenCalled, RecognizeCalled,
         Printed ''Speech recognition error'']) \<and>
     interaction_loop True d [e] =
       (Listening, d,
        [Printed ''Listening...'', ListenCalled, RecognizeCalled,
         Printed ''Speech recognition error'']) \<and>
     interaction_loop True d (e # es) =
       (case interaction_loop True d es of
          (x, d', evs) \<Rightarrow>
            (x, d',
             [Printed ''Listening...'', ListenCalled, RecognizeCalled,
              Printed ''Speech recognition error''] @ evs))"
proof -
  have step: "iteration True d e =
       (None, d,
        [Printed ''Listening...'', ListenCalled, RecognizeCalled,
         Printed ''Speech recognition error''])"
    using assms by (simp add: iteration_def acquire_def)
  then show ?thesis
    by simp
qed

theorem recognition_failure_relistens_witness:
  "heard ((said [])\<lparr>heard := RecognizeRaises\<rparr>) = RecognizeRaises \<and>
   interaction_loop True bare_dashboard [(said [])\<lparr>heard := RecognizeRaises\<rparr>] =
       (Listening, bare_dashboard,
        [Printed ''Listening...'', ListenCalled, RecognizeCalled,
         Printed ''Speech recognition error''])"
  using recognition_failure_relistens [of "(said [])\<lparr>heard := RecognizeRaises\<rparr>" bare_dashboard "[]"]
  by simp

text \<open>
  Claim C8 as worded fails for a capture failure: \<open>recognizer.listen\<close> is called
  outside the \<open>try\<close>, so when it raises (a timeout, say) the loop ends, the later
  utterance is never heard, and \<open>main\<close> logs a fatal error and shuts down.
\<close>

theorem capture_failure_counterexample:
  "main_loop True bare_dashboard [(said [])\<lparr>heard := ListenRaises\<rparr>, said ''hello''] =
     (Escaped, bare_dashboard,
      [Printed ''Listening...'', ListenCalled,
       LogError ''Fatal error'',
       LogInfo ''Shutting down Derek Dashboard services...'',
       LogInfo ''Derek Dashboard stopped cleanly.''])"
  by (simp add: main_loop_def iteration_def acquire_def
      stop_def stop_try_def if_present_def bare_dashboard_def)

text \<open>
  Claim C9, amended.  For every obtained utterance that is no termination phrase,
  \<open>process_message\<close> returns a reply, the pass prints it after the events of the
  turn, makes no \<open>speak\<close> call at all, with or without a voice, and the loop goes
  round again with the dashboard the turn left.
\<close>

theorem reply_is_printed_not_spoken:
  assumes "fst (acquire mic e) = Text text" and "\<not> is_termination text"
  shows "\<exists>reply d' evs.
     process_message (clock e) d text = (Returned reply, d', evs) \<and>
     iteration mic d e =
       (None, d',
        snd (acquire mic e) @ ProcessCalled text # evs @ [Printed (''Derek: '' @ reply)]) \<and>
     filter is_speak (snd (snd (iteration mic d e))) = [] \<and>
     interaction_loop mic d (e # es) =
       (case interaction_loop mic d' es of
          (x, d'', evs') \<Rightarrow> (x, d'', snd (snd (iteration mic d e)) @ evs'))"
proof -
  obtain reply d' evs where turn: "process_message (clock e) d text = (Returned reply, d', evs)"
    using process_message_triple by blast
  have step: "iteration mic d e =
       (None, d',
        snd (acquire mic e) @ ProcessCalled text # evs @ [Printed (''Derek: '' @ reply)])"
    by (rule iteration_dispatch [OF assms turn])
  have "filter is_speak evs = []"
    using process_message_quiet [of "clock e" d "text"] turn by simp
  then have silent: "filter is_speak (snd (snd (iteration mic d e))) = []"
    using acquire_quiet [of mic e] step by simp
  have run: "interaction_loop mic d (e # es) =
       (case interaction_loop mic d' es of
          (x, d'', evs') \<Rightarrow> (x, d'', snd (snd (iteration mic d e)) @ evs'))"
    using step by simp
  from turn step silent run show ?thesis
    by blast
qed

theorem reply_is_printed_not_spoken_witness:
  "fst (acquire False (said ''hello'')) = Text ''hello'' \<and> \<not> is_termination ''hello'' \<and>
   (\<exists>reply d' evs.
     process_message (clock (said ''hello''))
        (bare_dashboard\<lparr>derek := Some parrot_reasoner\<rparr>) ''hello'' = (Returned reply, d', evs) \<and>
     iteration False (bare_dashboard\<lparr>derek := Some parrot_reasoner\<rparr>) (said ''hello'') =
       (None, d',
        snd (acquire False (said ''hello'')) @ ProcessCalled ''hello'' # evs
          @ [Printed (''Derek: '' @ reply)]))"
proof -
  have got: "fst (acquire False (said ''hello'')) = Text ''hello''"
    by (simp add: acquire_typed [of _ "''hello''"] said_def strip_unpadded)
  from reply_is_printed_not_spoken [OF got hello_not_termination,
      of "bare_dashboard\<lparr>derek := Some parrot_reasoner\<rparr>" "[]"]
  have "\<exists>reply d' evs.
     process_message (clock (said ''hello''))
        (bare_dashboard\<lparr>derek := Some parrot_reasoner\<rparr>) ''hello'' = (Returned reply, d', evs) \<and>
     iteration False (bare_dashboard\<lparr>derek := Some parrot_reasoner\<rparr>) (said ''hello'') =
       (None, d',
        snd (acquire False (said ''hello'')) @ ProcessCalled ''hello'' # evs
          @ [Printed (''Derek: '' @ reply)])"
    by blast
  with got hello_not_termination show ?thesis
    by blast
qed

text \<open>
  Claim C9 says that the reply is also spoken whenever the voice is present.  With a
  working voice present the reply to \<open>hello\<close> is printed and never spoken.
\<close>

theorem reply_not_spoken_counterexample:
  "derek_ultimate_voice (bare_dashboard\<lparr>derek := Some parrot_reasoner,
       derek_ultimate_voice := Some good_voice\<rparr>) = Some good_voice \<and>
   \<not> is_termination ''hello'' \<and>
   interaction_loop False
     (bare_dashboard\<lparr>derek := Some parrot_reasoner, derek_ultimate_voice := Some good_voice\<rparr>)
     [said ''hello''] =
     (Listening,
      bare_dashboard\<lparr>derek := Some parrot_reasoner, derek_ultimate_voice := Some good_voice\<rparr>,
      [InputCalled, ProcessCalled ''hello'', ThinkCalled ''hello'', Printed ''Derek: hello''])"
  by (simp add: hello_not_termination iteration_def acquire_def said_def strip_unpadded
      process_message_def parrot_reasoner_def get_response_def bare_dashboard_def)

lemma dropWhile_all: "list_all P xs \<Longrightarrow> dropWhile P (xs @ ys) = dropWhile P ys"
  by (induction xs) simp_all

lemma dropWhile_none: "list_all P xs \<Longrightarrow> dropWhile P xs = []"
  by (induction xs) simp_all

text \<open>
  What \<open>strip\<close> computes: of a line made of whitespace, then a body that neither
  begins nor ends with whitespace, then whitespace, it returns the body.  Every line
  has that shape.
\<close>

lemma strip_trims:
  assumes "list_all isspace pre" and "list_all isspace post"
    and "body = [] \<or> \<not> isspace (hd body) \<and> \<not> isspace (last body)"
  shows "strip (pre @ body @ post) = body"
proof (cases "body = []")
  case True
  have front: "dropWhile isspace (pre @ post) = dropWhile isspace post"
    by (rule dropWhile_all [OF assms(1)])
  have rear: "dropWhile isspace post = []"
    by (rule dropWhile_none [OF assms(2)])
  show ?thesis
    unfolding True strip_def append_Nil front rear by simp
next
  case False
  with assms(3) have ends: "\<not> isspace (hd body)" "\<not> isspace (last body)"
    by simp_all
  have front: "dropWhile isspace (pre @ body @ post) = body @ post"
    using False ends(1) assms(1) by (cases body) (simp_all add: dropWhile_all)
  have "list_all isspace (rev post)"
    using assms(2) by (simp add: list_all_iff)
  then have "dropWhile isspace (rev post @ rev body) = dropWhile isspace (rev body)"
    by (rule dropWhile_all)
  also have "\<dots> = rev body"
    using False ends(2) by (cases "rev body") (auto simp: hd_rev)
  finally show ?thesis
    unfolding strip_def front by simp
qed

lemma strip_shape:
  "\<exists>pre body post. l = pre @ body @ post \<and> list_all isspace pre \<and> list_all isspace post \<and>
     (body = [] \<or> \<not> isspace (hd body) \<and> \<not> isspace (last body))"
proof -
  let ?rest = "dropWhile isspace l"
  let ?pre = "takeWhile isspace l"
  let ?post = "rev (takeWhile isspace (rev ?rest))"
  let ?body = "rev (dropWhile isspace (rev ?rest))"
  have whole: "l = ?pre @ ?body @ ?post"
  proof -
    have "?rest = rev (rev ?rest)" by simp
    also have "\<dots> = rev (takeWhile isspace (rev ?rest) @ dropWhile isspace (rev ?rest))"
      by (simp only: takeWhile_dropWhile_id)
    also have "\<dots> = ?body @ ?post" by (simp only: rev_append)
    finally have "?rest = ?body @ ?post" .
    then have "?pre @ ?rest = ?pre @ ?body @ ?post" by simp
    then show ?thesis by simp
  qed
  have pre: "list_all isspace ?pre"
    by (simp add: list_all_iff) (meson set_takeWhileD)
  have post: "list_all isspace ?post"
    by (simp add: list_all_iff) (meson set_takeWhileD)
  have body: "?body = [] \<or> \<not> isspace (hd ?body) \<and> \<not> isspace (last ?body)"
  proof (cases "?body = []")
    case True
    then show ?thesis by simp
  next
    case False
    then have nonempty: "dropWhile isspace (rev ?rest) \<noteq> []"
      by simp
    then have last_ok: "\<not> isspace (hd (dropWhile isspace (rev ?rest)))"
      by (rule hd_dropWhile)
    have rest_nonempty: "?rest \<noteq> []"
    proof
      assume empty: "?rest = []"
      have "dropWhile isspace (rev ?rest) = []"
        unfolding empty by simp
      with nonempty show False
        by contradiction
    qed
    then have first_ok: "\<not> isspace (hd ?rest)"
      by (rule hd_dropWhile)
    have "?rest = ?body @ ?post"
      using whole by (metis same_append_eq takeWhile_dropWhile_id)
    then have "hd ?rest = hd ?body"
      using False by (metis hd_append2)
    with first_ok last_ok False show ?thesis
      by (simp add: last_rev)
  qed
  from whole pre post body show ?thesis
    by blast
qed

lemma hi_there_not_termination:
  "\<not> is_termination ''hi there''"
  "\<not> is_termination (CHR 0x09 # '' hi there '' @ [CHR 0x0A])"
  by code_simp+

text \<open>
  Claim C10.  Without a microphone the utterance is the line read from the keyboard
  with its leading and trailing whitespace removed and everything between kept: for
  a line made of whitespace, a body that neither begins nor ends with whitespace,
  and whitespace, the body is the text that the termination test sees and that
  \<open>process_message\<close> is called with.  So a line of whitespace only is dispatched as
  the empty text and does not end the loop.  With a microphone the recognised text
  is tested and dispatched as it is, with its whitespace.
\<close>

theorem typed_line_is_stripped:
  assumes "list_all isspace pre" and "list_all isspace post"
    and "body = [] \<or> \<not> isspace (hd body) \<and> \<not> isspace (last body)"
  shows
   "(typed e = Line (pre @ body @ post) \<longrightarrow>
       acquire False e = (Text body, [InputCalled]) \<and>
       (is_termination body \<longrightarrow>
          fst (iteration False d e) \<noteq> None \<and>
          filter is_process (snd (snd (iteration False d e))) = []) \<and>
       (\<not> is_termination body \<longrightarrow>
          fst (iteration False d e) = None \<and>
          filter is_process (snd (snd (iteration False d e))) = [ProcessCalled body])) \<and>
    (typed e = Line pre \<longrightarrow>
       fst (iteration False d e) = None \<and>
       filter is_process (snd (snd (iteration False d e))) = [ProcessCalled []]) \<and>
    (heard e = Recognized (pre @ body @ post) \<longrightarrow>
       fst (acquire True e) = Text (pre @ body @ post) \<and>
       (\<not> is_termination (pre @ body @ post) \<longrightarrow>
          fst (iteration True d e) = None \<and>
          filter is_process (snd (snd (iteration True d e))) =
            [ProcessCalled (pre @ body @ post)]))"
proof -
  have dispatched: "fst (iteration mic d e) = None \<and>
      filter is_process (snd (snd (iteration mic d e))) = [ProcessCalled u]"
    if got: "fst (acquire mic e) = Text u" and go_on: "\<not> is_termination u" for mic u
  proof -
    obtain reply d' evs where turn: "process_message (clock e) d u = (Returned reply, d', evs)"
      using process_message_triple by blast
    have "filter is_process evs = []"
      using process_message_quiet [of "clock e" d u] turn by simp
    then show ?thesis
      using acquire_quiet [of mic e] iteration_dispatch [OF got go_on turn] by simp
  qed
  have ended: "fst (iteration mic d e) \<noteq> None \<and>
      filter is_process (snd (snd (iteration mic d e))) = []"
    if got: "fst (acquire mic e) = Text u" and stop_word: "is_termination u" for mic u
    using iteration_termination [OF got stop_word, of d] acquire_quiet [of mic e]
      say_farewell_events [of d] by simp
  have trimmed: "strip (pre @ body @ post) = body"
    by (rule strip_trims [OF assms])
  have blank: "strip pre = []"
    using strip_trims [of pre "[]" "[]"] assms(1) by simp
  have typed_body: "acquire False e = (Text body, [InputCalled])"
    if "typed e = Line (pre @ body @ post)"
    using that by (simp add: acquire_typed trimmed)
  have typed_blank: "fst (acquire False e) = Text []" if "typed e = Line pre"
    using that by (simp add: acquire_typed blank)
  have heard_whole: "fst (acquire True e) = Text (pre @ body @ post)"
    if "heard e = Recognized (pre @ body @ post)"
    using that by (simp add: acquire_def)
  show ?thesis
  proof (intro conjI impI)
    assume line: "typed e = Line (pre @ body @ post)"
    show "acquire False e = (Text body, [InputCalled])"
      by (rule typed_body [OF line])
    then have got: "fst (acquire False e) = Text body"
      by simp
    {
      assume "is_termination body"
      with ended [OF got] show "fst (iteration False d e) \<noteq> None"
        and "filter is_process (snd (snd (iteration False d e))) = []"
        by simp_all
    }
    {
      assume "\<not> is_termination body"
      with dispatched [OF got] show "fst (iteration False d e) = None"
        and "filter is_process (snd (snd (iteration False d e))) = [ProcessCalled body]"
        by simp_all
    }
  next
    assume "typed e = Line pre"
    then have got: "fst (acquire False e) = Text []"
      by (rule typed_blank)
    from dispatched [OF got empty_not_termination]
    show "fst (iteration False d e) = None"
      and "filter is_process (snd (snd (iteration False d e))) = [ProcessCalled []]"
      by simp_all
  next
    assume sound: "heard e = Recognized (pre @ body @ post)"
    show got: "fst (acquire True e) = Text (pre @ body @ post)"
      by (rule heard_whole [OF sound])
    {
      assume "\<not> is_termination (pre @ body @ post)"
      with dispatched [OF got] show "fst (iteration True d e) = None"
        and "filter is_process (snd (snd (iteration True d e))) =
            [ProcessCalled (pre @ body @ post)]"
        by simp_all
    }
  qed
qed

theorem typed_line_is_stripped_witness:
  "list_all isspace [CHR 0x09, CHR '' ''] \<and> list_all isspace [CHR '' '', CHR 0x0A] \<and>
   \<not> isspace (hd ''hi there'') \<and> \<not> isspace (last ''hi there'') \<and>
   \<not> is_termination ''hi there'' \<and>
   \<not> is_termination (CHR 0x09 # '' hi there '' @ [CHR 0x0A]) \<and>
   acquire False (said (CHR 0x09 # '' hi there '' @ [CHR 0x0A])) =
     (Text ''hi there'', [InputCalled]) \<and>
   filter is_process
     (snd (snd (iteration False bare_dashboard (said (CHR 0x09 # '' hi there '' @ [CHR 0x0A]))))) =
     [ProcessCalled ''hi there''] \<and>
   filter is_process (snd (snd (iteration False bare_dashboard (said [CHR 0x09, CHR '' ''])))) =
     [ProcessCalled []] \<and>
   fst (iteration False bare_dashboard (said [CHR 0x09, CHR '' ''])) = None \<and>
   filter is_process
     (snd (snd (iteration True bare_dashboard (said (CHR 0x09 # '' hi there '' @ [CHR 0x0A]))))) =
     [ProcessCalled (CHR 0x09 # '' hi there '' @ [CHR 0x0A])]"
proof -
  have pre: "list_all isspace [CHR 0x09, CHR '' '']"
    and post: "list_all isspace [CHR '' '', CHR 0x0A]"
    and body: "''hi there'' = [] \<or> \<not> isspace (hd ''hi there'') \<and> \<not> isspace (last ''hi there'')"
    by (simp_all add: isspace_def)
  have line: "[CHR 0x09, CHR '' ''] @ ''hi there'' @ [CHR '' '', CHR 0x0A] =
      CHR 0x09 # '' hi there '' @ [CHR 0x0A]"
    by simp
  from typed_line_is_stripped [OF pre post body,
      of "said (CHR 0x09 # '' hi there '' @ [CHR 0x0A])" bare_dashboard]
    typed_line_is_stripped [OF pre post body, of "said [CHR 0x09, CHR '' '']" bare_dashboard]
    hi_there_not_termination pre post body
  show ?thesis
    unfolding line by (simp add: said_def)
qed

end
